theory Spec2Isabelle
  imports Main
begin

section \<open>Data model\<close>

text \<open>
  The program is the script \<^verbatim>\<open>RAG_init.py\<close>. A langchain \<^verbatim>\<open>Document\<close> carries the text
  of one file and a metadata dictionary; \<^verbatim>\<open>TextLoader\<close> fills the metadata with the single
  key \<^verbatim>\<open>source\<close>, so the dictionary is kept as an association list.
\<close>

record document =
  page_content :: string
  metadata :: "(string \<times> string) list"

text \<open>
  An exception raised by a library call is represented by the text that \<^verbatim>\<open>{e}\<close> prints
  for it in an f-string.
\<close>

type_synonym exception = string

text \<open>
  The values stored in the dictionary that \<^verbatim>\<open>chain.invoke\<close> returns: strings under the
  keys \<^verbatim>\<open>query\<close> and \<^verbatim>\<open>result\<close>, a list of documents under \<^verbatim>\<open>source_documents\<close>.
\<close>

datatype pyval = PStr string | PDocs "document list"

type_synonym response = "string \<rightharpoonup> pyval"

text \<open>The two roles of a chat message, and a message as a role with its content.\<close>

datatype role = System | Human

type_synonym message = "role \<times> string"

section \<open>Python string operations used by the script\<close>

text \<open>\<^verbatim>\<open>s.endswith(suffix)\<close>: the last characters of \<open>s\<close> are \<open>suffix\<close>.\<close>

definition endswith :: "string \<Rightarrow> string \<Rightarrow> bool" where
  "endswith s suffix =
     (length suffix \<le> length s \<and> drop (length s - length suffix) s = suffix)"

text \<open>
  \<^verbatim>\<open>s.lower()\<close> on the ASCII letters; a \<open>string\<close> is a list of bytes here, and bytes
  outside \<open>A\<close> to \<open>Z\<close> are left as they are.
\<close>

definition lower_char :: "char \<Rightarrow> char" where
  "lower_char c =
     (case map_of (zip ''ABCDEFGHIJKLMNOPQRSTUVWXYZ'' ''abcdefghijklmnopqrstuvwxyz'') c of
        None \<Rightarrow> c
      | Some d \<Rightarrow> d)"

definition lower :: "string \<Rightarrow> string" where
  "lower s = map lower_char s"

text \<open>
  \<^verbatim>\<open>os.path.join(a, b)\<close> of \<^verbatim>\<open>posixpath\<close>: an absolute \<open>b\<close> replaces \<open>a\<close>; otherwise
  \<open>b\<close> is appended, after a slash unless \<open>a\<close> is empty or already ends with one.
\<close>

definition path_join :: "string \<Rightarrow> string \<Rightarrow> string" where
  "path_join a b =
     (if b \<noteq> [] \<and> hd b = CHR ''/'' then b
      else if a = [] \<or> last a = CHR ''/'' then a @ b
      else a @ ''/'' @ b)"

text \<open>\<^verbatim>\<open>sep.join(parts)\<close>.\<close>

fun str_join :: "string \<Rightarrow> string list \<Rightarrow> string" where
  "str_join sep [] = []"
| "str_join sep [x] = x"
| "str_join sep (x # y # ys) = x @ sep @ str_join sep (y # ys)"

text \<open>The text of a \<^verbatim>\<open>KeyError\<close>: the key between single quotes.\<close>

definition quoted :: "string \<Rightarrow> string" where
  "quoted k = [CHR 0x27] @ k @ [CHR 0x27]"

definition key_error :: "string \<Rightarrow> exception" where
  "key_error k = quoted k"

text \<open>
  \<^verbatim>\<open>template.format(**kw)\<close>, which langchain's f-string prompt templates call. Literal
  text is copied, a doubled brace stands for one brace, and \<^verbatim>\<open>{name}\<close> is replaced by
  the value of \<open>name\<close>; the inserted value is not scanned again. A field that is not
  closed or a lone closing brace is a \<^verbatim>\<open>ValueError\<close>, an unknown name a \<^verbatim>\<open>KeyError\<close>.
  Conversions and format specifications inside a field are not modelled: the
  templates of the script have none.
\<close>

fun str_format :: "string \<Rightarrow> (string \<times> string) list \<Rightarrow> exception + string"
  and format_field :: "string \<Rightarrow> string \<Rightarrow> (string \<times> string) list \<Rightarrow> exception + string"
where
  "str_format [] kw = Inr []"
| "str_format (c # cs) kw =
     (if c = CHR ''{'' then
        (case cs of
           [] \<Rightarrow> Inl (''Single '' @ quoted ''{'' @ '' encountered in format string'')
         | d # ds \<Rightarrow>
             if d = CHR ''{'' then map_sum id ((#) c) (str_format ds kw)
             else format_field [] cs kw)
      else if c = CHR ''}'' then
        (case cs of
           [] \<Rightarrow> Inl (''Single '' @ quoted ''}'' @ '' encountered in format string'')
         | d # ds \<Rightarrow>
             if d = CHR ''}'' then map_sum id ((#) c) (str_format ds kw)
             else Inl (''Single '' @ quoted ''}'' @ '' encountered in format string''))
      else map_sum id ((#) c) (str_format cs kw))"
| "format_field name [] kw = Inl (''expected '' @ quoted ''}'' @ '' before end of string'')"
| "format_field name (c # cs) kw =
     (if c = CHR ''}'' then
        (case map_of kw name of
           None \<Rightarrow> Inl (key_error name)
         | Some v \<Rightarrow> map_sum id ((@) v) (str_format cs kw))
      else format_field (name @ [c]) cs kw)"

section \<open>The world outside the script\<close>

text \<open>
  What \<^verbatim>\<open>os.scandir\<close> finds at a path: a file, a directory with its entries in the order
  \<^verbatim>\<open>scandir\<close> lists them, or a directory whose listing fails (\<^verbatim>\<open>scandir\<close> raises
  \<^verbatim>\<open>OSError\<close>). Symbolic links are not modelled.
\<close>

datatype fsnode = File | Dir "(string \<times> fsnode) list" | NoAccess

fun is_dir :: "fsnode \<Rightarrow> bool" where
  "is_dir File = False"
| "is_dir (Dir entries) = True"
| "is_dir NoAccess = True"

text \<open>
  The collaborators the script calls and does not define, as parameters:
  \<^item> \<open>scandir_tree\<close>: the tree found at a path, \<open>None\<close> when nothing exists there;
  \<^item> \<open>read_text\<close>: what \<^verbatim>\<open>TextLoader(path).load()\<close> reads, or the exception it raises;
  \<^item> \<open>openai_embeddings\<close>: the exception \<^verbatim>\<open>OpenAIEmbeddings()\<close> raises, if any;
  \<^item> \<open>from_documents\<close>: \<^verbatim>\<open>FAISS.from_documents(docs, embeddings)\<close>;
  \<^item> \<open>getenv_api_key\<close>: \<^verbatim>\<open>os.getenv("OPENAI_API_KEY")\<close>;
  \<^item> \<open>chat_openai\<close>: the exception \<^verbatim>\<open>ChatOpenAI(temperature=0, openai_api_key=k)\<close>
    raises, if any;
  \<^item> \<open>similarity_search\<close>: the retriever of the vector store, called with the query and
    \<open>k\<close>; it embeds the query and searches the index;
  \<^item> \<open>llm_generate\<close>: the language model called with the assembled messages;
  \<^item> \<open>document_separator\<close>: the separator langchain's \<^verbatim>\<open>stuff\<close> chain puts between
    documents (the script leaves it at the library's default);
  \<^item> \<open>str_docs\<close>: Python's \<^verbatim>\<open>str\<close> of a list of documents.

  The two query-time providers are network services. Their first argument counts the
  queries the session has executed before, so that the same query may fail once and
  succeed later.
\<close>

record 'vs env =
  scandir_tree :: "string \<Rightarrow> fsnode option"
  read_text :: "string \<Rightarrow> exception + string"
  openai_embeddings :: "exception option"
  from_documents :: "document list \<Rightarrow> exception + 'vs"
  getenv_api_key :: "string option"
  chat_openai :: "string option \<Rightarrow> exception option"
  similarity_search :: "nat \<Rightarrow> 'vs \<Rightarrow> string \<Rightarrow> nat \<Rightarrow> exception + document list"
  llm_generate :: "nat \<Rightarrow> message list \<Rightarrow> exception + string"
  document_separator :: string
  str_docs :: "document list \<Rightarrow> string"

text \<open>
  Standard output is the list of the chunks written to it. \<^verbatim>\<open>print(s)\<close> writes \<open>s\<close>
  and a newline.
\<close>

definition py_print :: "string \<Rightarrow> string list \<Rightarrow> string list" where
  "py_print s out = out @ [s @ ''\<newline>'']"

section \<open>Step 1: loading and embedding the markdown files\<close>

text \<open>
  \<^verbatim>\<open>os.walk(top)\<close> with its defaults (top-down, errors of \<^verbatim>\<open>scandir\<close> ignored): for a
  directory that can be listed it yields the triple of the directory's path, the names
  of its subdirectories and the names of its other entries, then walks each
  subdirectory in turn. Anything else yields nothing.
\<close>

fun os_walk :: "string \<Rightarrow> fsnode \<Rightarrow> (string \<times> string list \<times> string list) list"
  and walk_dirs :: "string \<Rightarrow> (string \<times> fsnode) list \<Rightarrow> (string \<times> string list \<times> string list) list"
where
  "os_walk dirpath (Dir entries) =
     (dirpath,
      map fst (filter (\<lambda>e. is_dir (snd e)) entries),
      map fst (filter (\<lambda>e. \<not> is_dir (snd e)) entries))
     # walk_dirs dirpath entries"
| "os_walk dirpath File = []"
| "os_walk dirpath NoAccess = []"
| "walk_dirs dirpath [] = []"
| "walk_dirs dirpath (e # es) =
     (if is_dir (snd e) then os_walk (path_join dirpath (fst e)) (snd e) else [])
     @ walk_dirs dirpath es"

definition walk :: "'vs env \<Rightarrow> string \<Rightarrow> (string \<times> string list \<times> string list) list" where
  "walk env directory_path =
     (case scandir_tree env directory_path of
        None \<Rightarrow> []
      | Some node \<Rightarrow> os_walk directory_path node)"

text \<open>
  \<^verbatim>\<open>TextLoader(filepath).load()\<close>: one document with the text of the file and its path
  under \<^verbatim>\<open>source\<close>, or the exception of the failed read.
\<close>

definition text_loader_load :: "'vs env \<Rightarrow> string \<Rightarrow> exception + document list" where
  "text_loader_load env filepath =
     (case read_text env filepath of
        Inl e \<Rightarrow> Inl e
      | Inr content \<Rightarrow> Inr [\<lparr>page_content = content, metadata = [(''source'', filepath)]\<rparr>])"

text \<open>
  The inner loop of \<^verbatim>\<open>load_and_embed_markdown\<close> (lines 29 to 36), over the files of one
  directory. The state is the list \<open>docs\<close> and standard output.
\<close>

fun load_files ::
  "'vs env \<Rightarrow> string \<Rightarrow> string list \<Rightarrow> document list \<times> string list \<Rightarrow> document list \<times> string list"
where
  "load_files env dirpath [] (docs, out) = (docs, out)"
| "load_files env dirpath (filename # files) (docs, out) =
     (if endswith filename ''.md'' then
        (let filepath = path_join dirpath filename in
         case text_loader_load env filepath of
           Inr loaded \<Rightarrow> load_files env dirpath files (docs @ loaded, out)
         | Inl e \<Rightarrow>
             load_files env dirpath files
               (docs, py_print (''Error loading file '' @ filepath @ '': '' @ e) out))
      else load_files env dirpath files (docs, out))"

text \<open>The outer loop (line 28), over the triples of the walk.\<close>

fun load_walk ::
  "'vs env \<Rightarrow> (string \<times> string list \<times> string list) list \<Rightarrow> document list \<times> string list
     \<Rightarrow> document list \<times> string list"
where
  "load_walk env [] st = st"
| "load_walk env ((dirpath, dirs, files) # rest) st =
     load_walk env rest (load_files env dirpath files st)"

text \<open>Lines 27 to 36: \<open>docs\<close> starts empty and the walk fills it.\<close>

definition load_documents :: "'vs env \<Rightarrow> string \<Rightarrow> string list \<Rightarrow> document list \<times> string list" where
  "load_documents env directory_path out = load_walk env (walk env directory_path) ([], out)"

text \<open>
  The errors that leave \<^verbatim>\<open>load_and_embed_markdown\<close>: the \<^verbatim>\<open>ValueError\<close> of line 39, or
  an exception of the embedding and index libraries (raised by line 42, or caught and
  raised again by lines 45 to 47).
\<close>

datatype error = ValueError string | Raised exception

fun error_str :: "error \<Rightarrow> string" where
  "error_str (ValueError m) = m"
| "error_str (Raised e) = e"

definition no_markdown_message :: string where
  "no_markdown_message =
     ''No markdown files were found. Ensure the directory contains valid .md files.''"

definition load_and_embed_markdown ::
  "'vs env \<Rightarrow> string \<Rightarrow> string list \<Rightarrow> (error + 'vs) \<times> string list"
where
  "load_and_embed_markdown env directory_path out =
     (case load_documents env directory_path out of
        (docs, out1) \<Rightarrow>
          if docs = [] then (Inl (ValueError no_markdown_message), out1)
          else
            (case openai_embeddings env of
               Some e \<Rightarrow> (Inl (Raised e), out1)
             | None \<Rightarrow>
                 (case from_documents env docs of
                    Inl e \<Rightarrow> (Inl (Raised e), py_print (''Error creating vectorstore: '' @ e) out1)
                  | Inr vectorstore \<Rightarrow> (Inr vectorstore, out1))))"

text \<open>
  The paths that line 31 builds, in the order the two loops reach them: for every triple
  of the walk, the files whose name ends with \<^verbatim>\<open>.md\<close>, joined to the directory.
\<close>

definition walk_paths :: "(string \<times> string list \<times> string list) list \<Rightarrow> string list" where
  "walk_paths w =
     concat (map (\<lambda>(dirpath, dirs, files).
                    map (path_join dirpath) (filter (\<lambda>f. endswith f ''.md'') files)) w)"

definition markdown_paths :: "'vs env \<Rightarrow> string \<Rightarrow> string list" where
  "markdown_paths env directory_path = walk_paths (walk env directory_path)"

text \<open>
  What the loader is expected to produce from a list of paths: the document of every
  path that can be read, and one line on standard output for every path that cannot.
\<close>

definition readable_documents :: "'vs env \<Rightarrow> string list \<Rightarrow> document list" where
  "readable_documents env paths =
     concat (map (\<lambda>p. case read_text env p of
                          Inl e \<Rightarrow> []
                        | Inr content \<Rightarrow> [\<lparr>page_content = content, metadata = [(''source'', p)]\<rparr>])
                 paths)"

definition read_failures :: "'vs env \<Rightarrow> string list \<Rightarrow> string list" where
  "read_failures env paths =
     concat (map (\<lambda>p. case read_text env p of
                          Inl e \<Rightarrow> [''Error loading file '' @ p @ '': '' @ e @ ''\<newline>'']
                        | Inr content \<Rightarrow> [])
                 paths)"



section \<open>Step 2: the prompt templates\<close>

text \<open>The text of \<^verbatim>\<open>system_template\<close> before its placeholder.\<close>

definition system_instruction :: string where
  "system_instruction =
     ''The files returned in this rag pipeline are markdown files from an obsidian template. \<newline>'' @
     ''Items are formatted in a to do list. For example:\<newline>'' @
     ''    -[ ] means that a task need to be done\<newline>'' @
     ''    -[x] means that the task has been completed. \<newline>'' @
     ''    \<newline>'' @
     ''When asking about to do items, please ignore completed tasks, and only return uncompleted tasks.  \<newline>'' @
     ''----------------\<newline>''"

definition system_template :: string where
  "system_template = system_instruction @ ''{context}''"

definition human_template :: string where
  "human_template = ''{question}''"

text \<open>\<^verbatim>\<open>ChatPromptTemplate.from_messages([system_message, human_message])\<close>.\<close>

definition chat_prompt :: "message list" where
  "chat_prompt = [(System, system_template), (Human, human_template)]"

text \<open>
  \<^verbatim>\<open>chat_prompt.format_messages(**kw)\<close>: every message template is formatted with the
  same keyword arguments; the first failure is raised.
\<close>

fun format_messages :: "message list \<Rightarrow> (string \<times> string) list \<Rightarrow> exception + message list" where
  "format_messages [] kw = Inr []"
| "format_messages ((r, template) # ms) kw =
     (case str_format template kw of
        Inl e \<Rightarrow> Inl e
      | Inr content \<Rightarrow>
          (case format_messages ms kw of
             Inl e \<Rightarrow> Inl e
           | Inr rest \<Rightarrow> Inr ((r, content) # rest)))"

section \<open>Step 3: the retrieval chain\<close>

text \<open>
  The \<^verbatim>\<open>stuff\<close> chain with the script's prompt: the retrieved documents' texts are joined
  with the separator and passed as \<^verbatim>\<open>context\<close>, the query as \<^verbatim>\<open>question\<close>.
\<close>

definition stuff_prompt :: "'vs env \<Rightarrow> document list \<Rightarrow> string \<Rightarrow> exception + message list" where
  "stuff_prompt env docs question =
     format_messages chat_prompt
       [(''context'', str_join (document_separator env) (map page_content docs)),
        (''question'', question)]"

text \<open>
  \<^verbatim>\<open>qa_chain.invoke({"query": query})\<close> for the chain that \<^verbatim>\<open>setup_rag_chain\<close> builds:
  the retriever is asked for \<^verbatim>\<open>k = 5\<close> documents, the prompt is assembled, the model is
  called, and the answer is returned with the query and the source documents
  (\<^verbatim>\<open>return_source_documents=True\<close>). An exception of any stage leaves the call.
\<close>

type_synonym chain = "nat \<Rightarrow> string \<Rightarrow> exception + response"

definition retrieval_qa :: "'vs env \<Rightarrow> 'vs \<Rightarrow> chain" where
  "retrieval_qa env vectorstore n query =
     (case similarity_search env n vectorstore query 5 of
        Inl e \<Rightarrow> Inl e
      | Inr docs \<Rightarrow>
          (case stuff_prompt env docs query of
             Inl e \<Rightarrow> Inl e
           | Inr messages \<Rightarrow>
               (case llm_generate env n messages of
                  Inl e \<Rightarrow> Inl e
                | Inr answer \<Rightarrow>
                    Inr [''query'' \<mapsto> PStr query, ''result'' \<mapsto> PStr answer,
                         ''source_documents'' \<mapsto> PDocs docs])))"

definition setup_rag_chain :: "'vs env \<Rightarrow> 'vs \<Rightarrow> string option \<Rightarrow> exception + chain" where
  "setup_rag_chain env vectorstore api_key =
     (case chat_openai env api_key of
        Some e \<Rightarrow> Inl e
      | None \<Rightarrow> Inr (retrieval_qa env vectorstore))"

section \<open>The response formatter\<close>

text \<open>
  \<^verbatim>\<open>return f"Response: {response['result']}\n"\<close>

  The subscript raises \<^verbatim>\<open>KeyError\<close> when the key is absent. A string is inserted as it
  is; any other value is inserted as Python's \<^verbatim>\<open>str\<close> renders it.
\<close>

fun py_format :: "(document list \<Rightarrow> string) \<Rightarrow> pyval \<Rightarrow> string" where
  "py_format render (PStr s) = s"
| "py_format render (PDocs ds) = render ds"

definition format_response :: "'vs env \<Rightarrow> response \<Rightarrow> exception + string" where
  "format_response env response =
     (case response ''result'' of
        None \<Rightarrow> Inl (key_error ''result'')
      | Some v \<Rightarrow> Inr (''Response: '' @ py_format (str_docs env) v @ ''\<newline>''))"

section \<open>Step 5: executing a query\<close>

text \<open>
  The body of the \<^verbatim>\<open>try\<close> is the chain call followed by the formatter; the handler
  prints the exception and returns \<^verbatim>\<open>None\<close>.
\<close>

definition execute_query ::
  "'vs env \<Rightarrow> chain \<Rightarrow> nat \<Rightarrow> string \<Rightarrow> string list \<Rightarrow> string option \<times> string list"
where
  "execute_query env qa_chain n query out =
     (case (case qa_chain n query of
              Inl e \<Rightarrow> Inl e
            | Inr response \<Rightarrow> format_response env response) of
        Inr formatted \<Rightarrow> (Some formatted, out)
      | Inl e \<Rightarrow> (None, py_print (''Error executing query: '' @ e) out))"

section \<open>The main script\<close>

text \<open>
  A run of the script reads the lines of standard input in order. It ends with an exit
  status, or with the \<^verbatim>\<open>EOFError\<close> that \<^verbatim>\<open>input\<close> raises when no line is left, which
  nothing catches. \<open>unread\<close> holds the lines the run did not read.
\<close>

datatype status = Exit nat | Uncaught exception

record run =
  status :: status
  stdout :: "string list"
  unread :: "string list"

definition is_exit :: "string \<Rightarrow> bool" where
  "is_exit query = (lower query = ''exit'' \<or> lower query = ''quit'')"

text \<open>
  The query loop (lines 161 to 169); \<open>n\<close> counts the queries executed so far.
  \<^verbatim>\<open>input(prompt)\<close> writes the prompt and reads a line. A response is printed when it is
  neither \<^verbatim>\<open>None\<close> nor the empty string.
\<close>

fun query_loop :: "'vs env \<Rightarrow> chain \<Rightarrow> nat \<Rightarrow> string list \<Rightarrow> string list \<Rightarrow> run" where
  "query_loop env qa_chain n [] out =
     \<lparr>status = Uncaught ''EOF when reading a line'',
      stdout = out @ [''Enter your query: ''], unread = []\<rparr>"
| "query_loop env qa_chain n (query # rest) out =
     (if is_exit query then
        \<lparr>status = Exit 0,
         stdout = py_print ''Goodbye!'' (out @ [''Enter your query: '']), unread = rest\<rparr>
      else
        (case execute_query env qa_chain n query (out @ [''Enter your query: '']) of
           (None, out1) \<Rightarrow> query_loop env qa_chain (Suc n) rest out1
         | (Some response, out1) \<Rightarrow>
             query_loop env qa_chain (Suc n) rest
               (if response \<noteq> [] then py_print response out1 else out1)))"

definition startup :: "string list" where
  "startup =
     py_print ''Embedding markdown notes...''
       [''Path to your Obsidian Vault or Markdown Directory: '']"

definition ready_message :: string where
  "ready_message =
     ''Ready to query your notes! Type '' @ quoted ''exit'' @ '' or '' @ quoted ''quit'' @
     '' to stop.''"

definition main :: "'vs env \<Rightarrow> string list \<Rightarrow> run" where
  "main env lines =
     (case lines of
        [] \<Rightarrow>
          \<lparr>status = Uncaught ''EOF when reading a line'',
           stdout = [''Path to your Obsidian Vault or Markdown Directory: ''], unread = []\<rparr>
      | markdown_directory # rest \<Rightarrow>
          (case load_and_embed_markdown env markdown_directory startup of
             (Inl e, out1) \<Rightarrow>
               \<lparr>status = Exit 1,
                stdout = py_print (''Failed to embed markdown notes: '' @ error_str e) out1,
                unread = rest\<rparr>
           | (Inr vectorstore, out1) \<Rightarrow>
               (case setup_rag_chain env vectorstore (getenv_api_key env) of
                  Inl e \<Rightarrow>
                    \<lparr>status = Exit 1,
                     stdout =
                       py_print (''Failed to set up RAG chain: '' @ e)
                         (py_print ''Setting up retrieval-augmented QA (RAG)...'' out1),
                     unread = rest\<rparr>
                | Inr rag_chain \<Rightarrow>
                    query_loop env rag_chain 0 rest
                      (py_print ready_message
                         (py_print ''Setting up retrieval-augmented QA (RAG)...'' out1)))))"

section \<open>A small vault\<close>

text \<open>
  A concrete world on which the model is run: a vault with three readable notes, one
  note that cannot be read, a text file and a directory that cannot be listed. The
  vector store is the list of documents itself and the retriever returns its first
  \<open>k\<close> documents; the embedding provider is down during the first query of a
  session and the language model during the third.
\<close>

definition example_tree :: fsnode where
  "example_tree =
     Dir [(''a.md'', File), (''b.txt'', File),
          (''sub'', Dir [(''c.md'', File), (''d.md'', File)]),
          (''locked'', NoAccess), (''e.md'', File)]"

definition example_env :: "document list env" where
  "example_env =
     \<lparr>scandir_tree =
        (\<lambda>p. if p = ''vault'' then Some example_tree
             else if p = ''texts'' then Some (Dir [(''b.txt'', File)])
             else if p = ''vault/a.md'' then Some File
             else None),
      read_text =
        (\<lambda>p. if p = ''vault/a.md'' then Inr ''- [ ] buy milk''
             else if p = ''vault/sub/c.md'' then Inr ''- [x] call mom''
             else if p = ''vault/e.md'' then Inr []
             else Inl (''Error loading '' @ p)),
      openai_embeddings = None,
      from_documents = (\<lambda>docs. Inr docs),
      getenv_api_key = Some ''sk-test'',
      chat_openai = (\<lambda>k. None),
      similarity_search =
        (\<lambda>n vs q k. if n = 0 then Inl ''embedding provider unreachable'' else Inr (take k vs)),
      llm_generate = (\<lambda>n ms. if n = 2 then Inl ''model unavailable'' else Inr ''buy milk''),
      document_separator = ''\<newline>\<newline>'',
      str_docs = (\<lambda>docs. ''[...]'')\<rparr>"

text \<open>The same world with an embedding provider that cannot be reached at build time.\<close>

definition failing_env :: "document list env" where
  "failing_env =
     example_env\<lparr>from_documents := (\<lambda>docs. Inl ''embedding provider unreachable'')\<rparr>"


section \<open>The loading loop\<close>

lemma readable_documents_append:
  "readable_documents env (ps @ qs) = readable_documents env ps @ readable_documents env qs"
  by (simp add: readable_documents_def)

lemma read_failures_append:
  "read_failures env (ps @ qs) = read_failures env ps @ read_failures env qs"
  by (simp add: read_failures_def)

lemma load_files_eq:
  "load_files env d files (docs, out) =
     (docs @ readable_documents env (map (path_join d) (filter (\<lambda>f. endswith f ''.md'') files)),
      out @ read_failures env (map (path_join d) (filter (\<lambda>f. endswith f ''.md'') files)))"
proof (induction files arbitrary: docs out)
  case Nil
  then show ?case by (simp add: readable_documents_def read_failures_def)
next
  case (Cons f files)
  show ?case
  proof (cases "endswith f ''.md''")
    case False
    then show ?thesis using Cons by simp
  next
    case True
    show ?thesis
    proof (cases "read_text env (path_join d f)")
      case (Inl e)
      with True Cons show ?thesis
        by (simp add: text_loader_load_def readable_documents_def read_failures_def py_print_def)
    next
      case (Inr content)
      with True Cons show ?thesis
        by (simp add: text_loader_load_def readable_documents_def read_failures_def)
    qed
  qed
qed

lemma load_walk_eq:
  "load_walk env w (docs, out) =
     (docs @ readable_documents env (walk_paths w), out @ read_failures env (walk_paths w))"
proof (induction w arbitrary: docs out)
  case Nil
  then show ?case by (simp add: walk_paths_def readable_documents_def read_failures_def)
next
  case (Cons t w)
  obtain d dirs files where t: "t = (d, dirs, files)" by (cases t) auto
  have split: "walk_paths ((d, dirs, files) # w) =
      map (path_join d) (filter (\<lambda>f. endswith f ''.md'') files) @ walk_paths w"
    by (simp add: walk_paths_def)
  show ?case
    by (simp add: t load_files_eq Cons split readable_documents_append read_failures_append
          del: load_files.simps)
qed

lemma load_documents_eq:
  "load_documents env directory_path out =
     (readable_documents env (markdown_paths env directory_path),
      out @ read_failures env (markdown_paths env directory_path))"
  by (simp add: load_documents_def load_walk_eq markdown_paths_def)






lemma load_and_embed_markdown_eq:
  "load_and_embed_markdown env directory_path out =
     (let docs = readable_documents env (markdown_paths env directory_path);
          out1 = out @ read_failures env (markdown_paths env directory_path)
      in if docs = [] then (Inl (ValueError no_markdown_message), out1)
         else
           (case openai_embeddings env of
              Some e \<Rightarrow> (Inl (Raised e), out1)
            | None \<Rightarrow>
                (case from_documents env docs of
                   Inl e \<Rightarrow> (Inl (Raised e), py_print (''Error creating vectorstore: '' @ e) out1)
                 | Inr vectorstore \<Rightarrow> (Inr vectorstore, out1))))"
  by (simp add: load_and_embed_markdown_def load_documents_eq Let_def)


section \<open>The response formatter: theorems\<close>

text \<open>
  Claim C4, as the code has it. For every chain response whose \<^verbatim>\<open>result\<close> is the answer
  text, \<open>format_response\<close> does not fail and returns the prefix \<^verbatim>\<open>Response: \<close>, the
  answer unchanged, and one newline. For the empty answer this is the prefix and the
  newline.
\<close>

theorem format_response_text:
  "response ''result'' = Some (PStr answer) \<Longrightarrow>
     format_response env response = Inr (''Response: '' @ answer @ ''\<newline>'')"
  by (simp add: format_response_def)

theorem format_response_text_witness:
  "[''result'' \<mapsto> PStr []] ''result'' = Some (PStr [])
   \<and> format_response example_env [''result'' \<mapsto> PStr []] = Inr ''Response: \<newline>''"
  using format_response_text [of "[''result'' \<mapsto> PStr []]" "[]" example_env] by simp

text \<open>
  The output is not the prefix followed by the answer alone: the f-string ends with a
  newline.
\<close>

theorem format_response_prefix_only_counterexample:
  "format_response example_env [''result'' \<mapsto> PStr ''buy milk'']
     = Inr ''Response: buy milk\<newline>''
   \<and> format_response example_env [''result'' \<mapsto> PStr ''buy milk'']
     \<noteq> Inr (''Response: '' @ ''buy milk'')"
  by (simp add: format_response_def)

text \<open>
  Claim C10. Two chain responses with the same value under \<^verbatim>\<open>result\<close> are formatted to
  the same output, whatever their \<^verbatim>\<open>query\<close> and \<^verbatim>\<open>source_documents\<close> are.
\<close>

theorem format_response_result_only:
  "r1 ''result'' = r2 ''result'' \<Longrightarrow> format_response env r1 = format_response env r2"
  by (simp add: format_response_def)

theorem format_response_result_only_witness:
  "[''query'' \<mapsto> PStr ''what do I need to do?'', ''result'' \<mapsto> PStr ''buy milk'',
    ''source_documents'' \<mapsto> PDocs [\<lparr>page_content = ''- [ ] buy milk'',
                                        metadata = [(''source'', ''vault/a.md'')]\<rparr>]] ''result''
     = [''query'' \<mapsto> PStr ''anything left?'', ''result'' \<mapsto> PStr ''buy milk'',
        ''source_documents'' \<mapsto> PDocs []] ''result''
   \<and> format_response example_env
        [''query'' \<mapsto> PStr ''what do I need to do?'', ''result'' \<mapsto> PStr ''buy milk'',
         ''source_documents'' \<mapsto> PDocs [\<lparr>page_content = ''- [ ] buy milk'',
                                             metadata = [(''source'', ''vault/a.md'')]\<rparr>]]
     = format_response example_env
        [''query'' \<mapsto> PStr ''anything left?'', ''result'' \<mapsto> PStr ''buy milk'',
         ''source_documents'' \<mapsto> PDocs []]"
  using format_response_result_only
    [of "[''query'' \<mapsto> PStr ''what do I need to do?'', ''result'' \<mapsto> PStr ''buy milk'',
          ''source_documents'' \<mapsto> PDocs [\<lparr>page_content = ''- [ ] buy milk'',
                                              metadata = [(''source'', ''vault/a.md'')]\<rparr>]]"
        "[''query'' \<mapsto> PStr ''anything left?'', ''result'' \<mapsto> PStr ''buy milk'',
          ''source_documents'' \<mapsto> PDocs []]" example_env]
  by simp

section \<open>The loader: theorems\<close>


lemma example_paths:
  "markdown_paths example_env ''vault'' =
     [''vault/a.md'', ''vault/e.md'', ''vault/sub/c.md'', ''vault/sub/d.md'']"
  by (simp add: markdown_paths_def walk_def walk_paths_def example_env_def example_tree_def
        path_join_def endswith_def)

lemma example_documents:
  "readable_documents example_env (markdown_paths example_env ''vault'') =
     [\<lparr>page_content = ''- [ ] buy milk'', metadata = [(''source'', ''vault/a.md'')]\<rparr>,
      \<lparr>page_content = [], metadata = [(''source'', ''vault/e.md'')]\<rparr>,
      \<lparr>page_content = ''- [x] call mom'', metadata = [(''source'', ''vault/sub/c.md'')]\<rparr>]"
  unfolding example_paths by (simp add: readable_documents_def example_env_def)

lemma example_failures:
  "read_failures example_env (markdown_paths example_env ''vault'') =
     [''Error loading file vault/sub/d.md: Error loading vault/sub/d.md\<newline>'']"
  unfolding example_paths by (simp add: read_failures_def example_env_def)












text \<open>
  Claim C9. When nothing exists at the path, or a file, or a directory that cannot be
  listed, the walk yields nothing and \<open>load_and_embed_markdown\<close> raises the same
  \<^verbatim>\<open>ValueError\<close> as for a directory without markdown files; the result is the one an
  empty directory at that path gives.
\<close>

theorem missing_directory_like_empty:
  "scandir_tree env directory_path = None \<or> scandir_tree env directory_path = Some File
     \<or> scandir_tree env directory_path = Some NoAccess \<Longrightarrow>
   load_and_embed_markdown env directory_path out = (Inl (ValueError no_markdown_message), out)
   \<and> load_and_embed_markdown env directory_path out =
       load_and_embed_markdown
         (env\<lparr>scandir_tree := (scandir_tree env)(directory_path \<mapsto> Dir [])\<rparr>) directory_path out"
proof -
  assume "scandir_tree env directory_path = None \<or> scandir_tree env directory_path = Some File
     \<or> scandir_tree env directory_path = Some NoAccess"
  then have "walk env directory_path = []"
    by (auto simp: walk_def)
  then have missing: "markdown_paths env directory_path = []"
    by (simp add: markdown_paths_def walk_paths_def)
  have "walk (env\<lparr>scandir_tree := (scandir_tree env)(directory_path \<mapsto> Dir [])\<rparr>) directory_path
      = [(directory_path, [], [])]"
    by (simp add: walk_def)
  then have empty: "markdown_paths
      (env\<lparr>scandir_tree := (scandir_tree env)(directory_path \<mapsto> Dir [])\<rparr>) directory_path = []"
    by (simp add: markdown_paths_def walk_paths_def)
  show ?thesis
    unfolding load_and_embed_markdown_eq missing empty
    by (simp add: readable_documents_def read_failures_def)
qed

theorem missing_directory_like_empty_witness:
  "scandir_tree example_env ''no such vault'' = None
   \<and> load_and_embed_markdown example_env ''no such vault'' [] =
       (Inl (ValueError no_markdown_message), [])
   \<and> scandir_tree example_env ''vault/a.md'' = Some File
   \<and> load_and_embed_markdown example_env ''vault/a.md'' [] =
       (Inl (ValueError no_markdown_message), [])"
proof -
  have absent: "scandir_tree example_env ''no such vault'' = None"
    and plain: "scandir_tree example_env ''vault/a.md'' = Some File"
    by (simp_all add: example_env_def)
  show ?thesis
    using missing_directory_like_empty [of example_env "''no such vault''" "[]"]
      missing_directory_like_empty [of example_env "''vault/a.md''" "[]"] absent plain
    by simp
qed

section \<open>The prompt and the chain: theorems\<close>

lemma str_format_literal:
  "CHR ''{'' \<notin> set l \<Longrightarrow> CHR ''}'' \<notin> set l \<Longrightarrow>
     str_format (l @ rest) kw = map_sum id ((@) l) (str_format rest kw)"
proof (induction l)
  case Nil
  show ?case by (cases "str_format rest kw") simp_all
next
  case (Cons c l)
  from Cons.prems have "c \<noteq> CHR ''{''" and "c \<noteq> CHR ''}''"
    by auto
  then have "str_format ((c # l) @ rest) kw = map_sum id ((#) c) (str_format (l @ rest) kw)"
    by simp
  also have "\<dots> = map_sum id ((@) (c # l)) (str_format rest kw)"
    using Cons by (cases "str_format rest kw") simp_all
  finally show ?case .
qed

lemma str_format_context:
  "map_of kw ''context'' = Some v \<Longrightarrow> str_format ''{context}'' kw = Inr v"
  by simp

lemma str_format_question:
  "map_of kw ''question'' = Some v \<Longrightarrow> str_format ''{question}'' kw = Inr v"
  by simp

lemma system_instruction_literal:
  "CHR ''{'' \<notin> set system_instruction" "CHR ''}'' \<notin> set system_instruction"
  by (simp_all add: system_instruction_def)

lemma str_format_system_template:
  "map_of kw ''context'' = Some v \<Longrightarrow> str_format system_template kw = Inr (system_instruction @ v)"
  unfolding system_template_def
  by (simp only: str_format_literal [OF system_instruction_literal] str_format_context)
     simp

lemma stuff_prompt_eq:
  "stuff_prompt env docs question =
     Inr [(System, system_instruction @ str_join (document_separator env) (map page_content docs)),
          (Human, question)]"
proof -
  let ?kw = "[(''context'', str_join (document_separator env) (map page_content docs)),
              (''question'', question)]"
  have sys: "str_format system_template ?kw =
      Inr (system_instruction @ str_join (document_separator env) (map page_content docs))"
    by (rule str_format_system_template) simp
  have hum: "str_format human_template ?kw = Inr question"
    unfolding human_template_def by (rule str_format_question) simp
  show ?thesis
    by (simp add: stuff_prompt_def chat_prompt_def sys hum)
qed

text \<open>
  Claim C7. For all retrieved documents and every question the assembled prompt has two
  messages: the system message is the fixed instruction followed by the documents' texts,
  each whole and in order, joined with the separator; the human message is the question
  as given. The value is a function of the documents, the question and the separator
  only.
\<close>

theorem prompt_assembly:
  "stuff_prompt env docs question =
     Inr [(System, system_instruction @ str_join (document_separator env) (map page_content docs)),
          (Human, question)]"
  by (rule stuff_prompt_eq)

theorem prompt_assembly_witness:
  "stuff_prompt example_env
     [\<lparr>page_content = ''- [ ] buy milk'', metadata = [(''source'', ''vault/a.md'')]\<rparr>,
      \<lparr>page_content = ''- [x] call mom'', metadata = [(''source'', ''vault/sub/c.md'')]\<rparr>]
     ''what do I need to do?'' =
   Inr [(System, system_instruction @ ''- [ ] buy milk\<newline>\<newline>- [x] call mom''),
        (Human, ''what do I need to do?'')]"
proof -
  have sep: "document_separator example_env = ''\<newline>\<newline>''"
    by (simp add: example_env_def)
  show ?thesis
    using prompt_assembly [of example_env
        "[\<lparr>page_content = ''- [ ] buy milk'', metadata = [(''source'', ''vault/a.md'')]\<rparr>,
          \<lparr>page_content = ''- [x] call mom'', metadata = [(''source'', ''vault/sub/c.md'')]\<rparr>]"
        "''what do I need to do?''"]
    by (simp add: sep)
qed

lemma retrieval_qa_eq:
  "retrieval_qa env vectorstore n query =
     (case similarity_search env n vectorstore query 5 of
        Inl e \<Rightarrow> Inl e
      | Inr docs \<Rightarrow>
          (case llm_generate env n
                  [(System, system_instruction
                      @ str_join (document_separator env) (map page_content docs)),
                   (Human, query)] of
             Inl e \<Rightarrow> Inl e
           | Inr answer \<Rightarrow>
               Inr [''query'' \<mapsto> PStr query, ''result'' \<mapsto> PStr answer,
                    ''source_documents'' \<mapsto> PDocs docs]))"
  by (simp add: retrieval_qa_def stuff_prompt_eq split: sum.splits)

lemma execute_query_extends:
  "\<exists>extra. snd (execute_query env qa_chain n query out) = out @ extra"
  by (simp add: execute_query_def py_print_def split: sum.splits)

lemma query_loop_extends:
  "\<exists>more. stdout (query_loop env qa_chain n queries out) = out @ more"
proof (induction queries arbitrary: n out)
  case Nil
  show ?case by simp
next
  case (Cons q queries)
  show ?case
  proof (cases "is_exit q")
    case True
    then show ?thesis by (simp add: py_print_def)
  next
    case False
    obtain r out1 where ex: "execute_query env qa_chain n q (out @ [''Enter your query: '']) = (r, out1)"
      by (cases "execute_query env qa_chain n q (out @ [''Enter your query: ''])") auto
    obtain extra where out1: "out1 = (out @ [''Enter your query: '']) @ extra"
      using execute_query_extends [of env qa_chain n q "out @ [''Enter your query: '']"] ex
      by auto
    define out2 where "out2 =
      (case r of None \<Rightarrow> out1
       | Some response \<Rightarrow> if response \<noteq> [] then py_print response out1 else out1)"
    have step: "query_loop env qa_chain n (q # queries) out =
        query_loop env qa_chain (Suc n) queries out2"
      using False ex by (simp add: out2_def split: option.splits)
    have "\<exists>printed. out2 = out1 @ printed"
      by (cases r) (simp_all add: out2_def py_print_def)
    then obtain printed where out2: "out2 = out1 @ printed" ..
    obtain more where "stdout (query_loop env qa_chain (Suc n) queries out2) = out2 @ more"
      using Cons.IH by blast
    then have "stdout (query_loop env qa_chain n (q # queries) out) =
        out @ ([''Enter your query: ''] @ extra @ printed @ more)"
      unfolding step by (simp add: out2 out1)
    then show ?thesis by blast
  qed
qed

lemma query_loop_unread:
  "\<exists>consumed. queries = consumed @ unread (query_loop env qa_chain n queries out)"
proof (induction queries arbitrary: n out)
  case Nil
  show ?case by simp
next
  case (Cons q queries)
  show ?case
  proof (cases "is_exit q")
    case True
    then have "q # queries = [q] @ unread (query_loop env qa_chain n (q # queries) out)"
      by simp
    then show ?thesis by blast
  next
    case False
    obtain r out1 where ex: "execute_query env qa_chain n q (out @ [''Enter your query: '']) = (r, out1)"
      by (cases "execute_query env qa_chain n q (out @ [''Enter your query: ''])") auto
    define out2 where "out2 =
      (case r of None \<Rightarrow> out1
       | Some response \<Rightarrow> if response \<noteq> [] then py_print response out1 else out1)"
    have step: "query_loop env qa_chain n (q # queries) out =
        query_loop env qa_chain (Suc n) queries out2"
      using False ex by (simp add: out2_def split: option.splits)
    obtain consumed where "queries = consumed @ unread (query_loop env qa_chain (Suc n) queries out2)"
      using Cons.IH by blast
    then have "q # queries = (q # consumed) @ unread (query_loop env qa_chain n (q # queries) out)"
      unfolding step by simp
    then show ?thesis by blast
  qed
qed


lemma failed_then_answered:
  assumes failed: "qa_chain n query = Inl e"
    and go: "\<not> is_exit query" "\<not> is_exit query'"
    and ok: "qa_chain (Suc n) query' = Inr response" "response ''result'' = Some (PStr answer)"
  shows "query_loop env qa_chain n (query # query' # rest) out =
      query_loop env qa_chain (Suc (Suc n)) rest
        (out @ [''Enter your query: '', ''Error executing query: '' @ e @ ''\<newline>'',
                ''Enter your query: '', ''Response: '' @ answer @ ''\<newline>\<newline>''])"
proof -
  have "query_loop env qa_chain n (query # query' # rest) out =
      query_loop env qa_chain (Suc n) (query' # rest)
        (out @ [''Enter your query: '', ''Error executing query: '' @ e @ ''\<newline>''])"
    using go(1) failed by (simp add: execute_query_def py_print_def)
  also have "\<dots> = query_loop env qa_chain (Suc (Suc n)) rest
      (out @ [''Enter your query: '', ''Error executing query: '' @ e @ ''\<newline>'',
              ''Enter your query: '', ''Response: '' @ answer @ ''\<newline>\<newline>''])"
    using go(2) ok by (simp add: execute_query_def format_response_def py_print_def)
  finally show ?thesis .
qed

text \<open>
  Claim C3. A failure of the retriever (which embeds the query) or of the language model
  makes the chain call fail with that exception; \<open>execute_query\<close> then returns
  \<^verbatim>\<open>None\<close> after printing one line with the exception's text, and raises nothing. In the
  query loop, a failed query followed by a query that succeeds is a run whose output
  continues with the prompt, the error line, the prompt and the second query's formatted
  response, and that has read both queries: what it leaves unread is an end of the
  remaining input. The run ends with the \<^verbatim>\<open>EOFError\<close> of \<^verbatim>\<open>input\<close> when no line is left
  and with status 0 when the next line is an exit command; in general it goes on as the
  loop does on the remaining input.
\<close>

theorem query_failure_does_not_stop_loop:
  "(similarity_search env n vectorstore query 5 = Inl e \<longrightarrow>
      retrieval_qa env vectorstore n query = Inl e)
   \<and> (similarity_search env n vectorstore query 5 = Inr docs \<longrightarrow>
        stuff_prompt env docs query = Inr messages \<longrightarrow> llm_generate env n messages = Inl e \<longrightarrow>
        retrieval_qa env vectorstore n query = Inl e)
   \<and> (qa_chain n query = Inl e \<longrightarrow>
        execute_query env qa_chain n query out =
          (None, out @ [''Error executing query: '' @ e @ ''\<newline>'']))
   \<and> (qa_chain n query = Inl e \<longrightarrow> \<not> is_exit query \<longrightarrow> \<not> is_exit query' \<longrightarrow>
        qa_chain (Suc n) query' = Inr response \<longrightarrow> response ''result'' = Some (PStr answer) \<longrightarrow>
        (\<exists>more. stdout (query_loop env qa_chain n (query # query' # rest) out) =
            out @ [''Enter your query: '', ''Error executing query: '' @ e @ ''\<newline>'',
                   ''Enter your query: '', ''Response: '' @ answer @ ''\<newline>\<newline>''] @ more)
        \<and> (\<exists>consumed. rest =
              consumed @ unread (query_loop env qa_chain n (query # query' # rest) out))
        \<and> query_loop env qa_chain n [query, query'] out =
            \<lparr>status = Uncaught ''EOF when reading a line'',
             stdout =
               out @ [''Enter your query: '', ''Error executing query: '' @ e @ ''\<newline>'',
                      ''Enter your query: '', ''Response: '' @ answer @ ''\<newline>\<newline>'',
                      ''Enter your query: ''],
             unread = []\<rparr>
        \<and> (is_exit stop \<longrightarrow>
             query_loop env qa_chain n (query # query' # stop # later) out =
               \<lparr>status = Exit 0,
                stdout =
                  out @ [''Enter your query: '', ''Error executing query: '' @ e @ ''\<newline>'',
                         ''Enter your query: '', ''Response: '' @ answer @ ''\<newline>\<newline>'',
                         ''Enter your query: '', ''Goodbye!\<newline>''],
                unread = later\<rparr>)
        \<and> query_loop env qa_chain n (query # query' # rest) out =
            query_loop env qa_chain (Suc (Suc n)) rest
              (out @ [''Enter your query: '', ''Error executing query: '' @ e @ ''\<newline>'',
                      ''Enter your query: '', ''Response: '' @ answer @ ''\<newline>\<newline>'']))"
proof (intro conjI impI)
  assume "similarity_search env n vectorstore query 5 = Inl e"
  then show "retrieval_qa env vectorstore n query = Inl e"
    by (simp add: retrieval_qa_def)
next
  assume "similarity_search env n vectorstore query 5 = Inr docs"
    and "stuff_prompt env docs query = Inr messages"
    and "llm_generate env n messages = Inl e"
  then show "retrieval_qa env vectorstore n query = Inl e"
    by (simp add: retrieval_qa_def)
next
  assume "qa_chain n query = Inl e"
  then show "execute_query env qa_chain n query out =
      (None, out @ [''Error executing query: '' @ e @ ''\<newline>''])"
    by (simp add: execute_query_def py_print_def)
next
  let ?lines = "[''Enter your query: '', ''Error executing query: '' @ e @ ''\<newline>'',
                 ''Enter your query: '', ''Response: '' @ answer @ ''\<newline>\<newline>'']"
  assume failed: "qa_chain n query = Inl e"
    and go: "\<not> is_exit query" "\<not> is_exit query'"
    and ok: "qa_chain (Suc n) query' = Inr response" "response ''result'' = Some (PStr answer)"
  note step = failed_then_answered [where env = env and out = out, OF failed go ok]
  obtain more where
    "stdout (query_loop env qa_chain (Suc (Suc n)) rest (out @ ?lines)) = (out @ ?lines) @ more"
    using query_loop_extends by blast
  then have "stdout (query_loop env qa_chain n (query # query' # rest) out) = out @ ?lines @ more"
    unfolding step [of rest] by simp
  then show "\<exists>more. stdout (query_loop env qa_chain n (query # query' # rest) out) =
      out @ ?lines @ more" ..
  obtain consumed where
    "rest = consumed @ unread (query_loop env qa_chain (Suc (Suc n)) rest (out @ ?lines))"
    using query_loop_unread by blast
  then have "rest = consumed @ unread (query_loop env qa_chain n (query # query' # rest) out)"
    unfolding step [of rest] .
  then show "\<exists>consumed. rest =
      consumed @ unread (query_loop env qa_chain n (query # query' # rest) out)" ..
  show "query_loop env qa_chain n [query, query'] out =
      \<lparr>status = Uncaught ''EOF when reading a line'',
       stdout =
         out @ [''Enter your query: '', ''Error executing query: '' @ e @ ''\<newline>'',
                ''Enter your query: '', ''Response: '' @ answer @ ''\<newline>\<newline>'',
                ''Enter your query: ''],
       unread = []\<rparr>"
    unfolding step [of "[]"] by simp
  show "query_loop env qa_chain n (query # query' # rest) out =
      query_loop env qa_chain (Suc (Suc n)) rest (out @ ?lines)"
    by (rule step)
  assume "is_exit stop"
  then show "query_loop env qa_chain n (query # query' # stop # later) out =
      \<lparr>status = Exit 0,
       stdout =
         out @ [''Enter your query: '', ''Error executing query: '' @ e @ ''\<newline>'',
                ''Enter your query: '', ''Response: '' @ answer @ ''\<newline>\<newline>'',
                ''Enter your query: '', ''Goodbye!\<newline>''],
       unread = later\<rparr>"
    unfolding step [of "stop # later"] by (simp add: py_print_def)
qed

lemma not_exit_example: "\<not> is_exit ''what is left?''"
  by (simp add: is_exit_def lower_def lower_char_def)

lemma exit_example: "is_exit ''Quit''"
  by (simp add: is_exit_def lower_def lower_char_def)

theorem query_failure_does_not_stop_loop_witness:
  "retrieval_qa example_env [] 0 ''what is left?'' = Inl ''embedding provider unreachable''
   \<and> execute_query example_env (retrieval_qa example_env []) 0 ''what is left?'' [] =
       (None, [''Error executing query: embedding provider unreachable\<newline>''])
   \<and> query_loop example_env (retrieval_qa example_env []) 0
        [''what is left?'', ''what is left?'', ''Quit'', ''unread''] [] =
       \<lparr>status = Exit 0,
        stdout = [''Enter your query: '',
                  ''Error executing query: embedding provider unreachable\<newline>'',
                  ''Enter your query: '', ''Response: buy milk\<newline>\<newline>'',
                  ''Enter your query: '', ''Goodbye!\<newline>''],
        unread = [''unread'']\<rparr>"
proof -
  let ?chain = "retrieval_qa example_env []"
  have down: "similarity_search example_env 0 [] ''what is left?'' 5
      = Inl ''embedding provider unreachable''"
    by (simp add: example_env_def)
  have ok: "?chain (Suc 0) ''what is left?'' =
      Inr [''query'' \<mapsto> PStr ''what is left?'', ''result'' \<mapsto> PStr ''buy milk'',
           ''source_documents'' \<mapsto> PDocs []]"
    by (simp add: retrieval_qa_eq example_env_def)
  have answer: "[''query'' \<mapsto> PStr ''what is left?'', ''result'' \<mapsto> PStr ''buy milk'',
           ''source_documents'' \<mapsto> PDocs []] ''result'' = Some (PStr ''buy milk'')"
    by simp
  note isolated = query_failure_does_not_stop_loop
    [of example_env 0 "[]" "''what is left?''" "''embedding provider unreachable''" "[]" "[]"
        ?chain "[]" "''what is left?''"
        "[''query'' \<mapsto> PStr ''what is left?'', ''result'' \<mapsto> PStr ''buy milk'',
          ''source_documents'' \<mapsto> PDocs []]" "''buy milk''" "[]" "''Quit''" "[''unread'']"]
  have failed: "?chain 0 ''what is left?'' = Inl ''embedding provider unreachable''"
    using isolated down by blast
  have caught: "execute_query example_env ?chain 0 ''what is left?'' [] =
      (None, [''Error executing query: embedding provider unreachable\<newline>''])"
    using isolated failed by simp
  have "query_loop example_env ?chain 0 [''what is left?'', ''what is left?'', ''Quit'', ''unread''] []
      = \<lparr>status = Exit 0,
         stdout = [''Enter your query: '',
                   ''Error executing query: embedding provider unreachable\<newline>'',
                   ''Enter your query: '', ''Response: buy milk\<newline>\<newline>'',
                   ''Enter your query: '', ''Goodbye!\<newline>''],
         unread = [''unread'']\<rparr>"
    using isolated failed ok answer not_exit_example exit_example by simp
  with failed caught show ?thesis by simp
qed

lemma load_and_embed_markdown_build_failure:
  assumes "load_documents env directory_path out = (docs, out1)" and "docs \<noteq> []"
    and "openai_embeddings env = Some e
         \<or> (openai_embeddings env = None \<and> from_documents env docs = Inl e)"
  shows "load_and_embed_markdown env directory_path out =
           (Inl (Raised e),
            out1 @ (if openai_embeddings env = None
                    then [''Error creating vectorstore: '' @ e @ ''\<newline>''] else []))"
  using assms by (auto simp: load_and_embed_markdown_def py_print_def)

text \<open>
  Claim C8. When at least one document was loaded and the embeddings object or the index
  cannot be built, the exception leaves \<open>load_and_embed_markdown\<close>, and the script
  prints the failure and exits with status 1: no query line is read, so no query is
  answered.
\<close>

theorem build_failure_exits:
  assumes "load_documents env markdown_directory startup = (docs, out1)" and "docs \<noteq> []"
    and "openai_embeddings env = Some e
         \<or> (openai_embeddings env = None \<and> from_documents env docs = Inl e)"
  shows "fst (load_and_embed_markdown env markdown_directory startup) = Inl (Raised e)
    \<and> main env (markdown_directory # queries) =
        \<lparr>status = Exit 1,
         stdout = out1
           @ (if openai_embeddings env = None
              then [''Error creating vectorstore: '' @ e @ ''\<newline>''] else [])
           @ [''Failed to embed markdown notes: '' @ e @ ''\<newline>''],
         unread = queries\<rparr>"
  by (simp add: load_and_embed_markdown_build_failure [OF assms] main_def py_print_def)

lemma failing_env_documents:
  "load_documents failing_env ''vault'' out =
     ([\<lparr>page_content = ''- [ ] buy milk'', metadata = [(''source'', ''vault/a.md'')]\<rparr>,
       \<lparr>page_content = [], metadata = [(''source'', ''vault/e.md'')]\<rparr>,
       \<lparr>page_content = ''- [x] call mom'', metadata = [(''source'', ''vault/sub/c.md'')]\<rparr>],
      out @ [''Error loading file vault/sub/d.md: Error loading vault/sub/d.md\<newline>''])"
proof -
  have paths: "markdown_paths failing_env ''vault'' = markdown_paths example_env ''vault''"
    by (simp add: failing_env_def markdown_paths_def walk_def)
  have docs: "readable_documents failing_env ps = readable_documents example_env ps" for ps
    by (simp add: failing_env_def readable_documents_def)
  have lines: "read_failures failing_env ps = read_failures example_env ps" for ps
    by (simp add: failing_env_def read_failures_def)
  show ?thesis
    by (simp add: load_documents_eq paths docs lines example_documents example_failures)
qed

theorem build_failure_exits_witness:
  "main failing_env [''vault'', ''what is left?'', ''quit''] =
     \<lparr>status = Exit 1,
      stdout = [''Path to your Obsidian Vault or Markdown Directory: '',
                ''Embedding markdown notes...\<newline>'',
                ''Error loading file vault/sub/d.md: Error loading vault/sub/d.md\<newline>'',
                ''Error creating vectorstore: embedding provider unreachable\<newline>'',
                ''Failed to embed markdown notes: embedding provider unreachable\<newline>''],
      unread = [''what is left?'', ''quit'']\<rparr>"
proof -
  have emb: "openai_embeddings failing_env = None"
    by (simp add: failing_env_def example_env_def)
  have down: "from_documents failing_env docs = Inl ''embedding provider unreachable''" for docs
    by (simp add: failing_env_def)
  have "openai_embeddings failing_env = Some ''embedding provider unreachable''
      \<or> (openai_embeddings failing_env = None
         \<and> from_documents failing_env
              [\<lparr>page_content = ''- [ ] buy milk'', metadata = [(''source'', ''vault/a.md'')]\<rparr>,
               \<lparr>page_content = [], metadata = [(''source'', ''vault/e.md'')]\<rparr>,
               \<lparr>page_content = ''- [x] call mom'', metadata = [(''source'', ''vault/sub/c.md'')]\<rparr>]
            = Inl ''embedding provider unreachable'')"
    by (simp add: emb down)
  from build_failure_exits [OF failing_env_documents _ this, of "[''what is left?'', ''quit'']"]
  show ?thesis
    by (simp add: emb startup_def py_print_def)
qed

end
